theory Spec2Isabelle
  imports Complex_Main
begin

section \<open>Rate limit manager: a shallow embedding of \<open>utils/rate_limit_manager.py\<close>\<close>

text \<open>
  Conventions of the embedding.
  \<^item> Python \<open>int\<close> is \<open>int\<close>. Python \<open>float\<close> is \<open>real\<close>: rounding and the range of a
    double are not modelled, so \<open>/\<close> on two ints is the exact quotient and \<open>**\<close> the exact
    power.
  \<^item> Python \<open>str\<close> is \<open>string\<close>; a character is read as the code point of the same
    number (Latin-1).
  \<^item> An exception is a value \<open>PyError cls msg\<close>, where \<open>msg\<close> is what \<open>str(e)\<close> returns;
    a function that can raise returns \<open>py_error + 'a\<close>.
  \<^item> A \<open>datetime\<close> (always UTC here) is its number of microseconds since the Unix epoch.
  \<^item> Calls of \<open>logger\<close> have no effect on the results and are left out.
  \<^item> \<open>time.sleep\<close> records its argument; the limits of float arithmetic and of
    \<open>time.sleep\<close> (an \<open>OverflowError\<close> of \<open>**\<close>, a negative duration) are outside
    the model.
\<close>

subsection \<open>Exceptions\<close>

text \<open>
  The classes the module meets. \<open>Exception\<close> stands for any other class derived from
  \<open>Exception\<close>, \<open>BaseException\<close> for a class that is not (\<open>KeyboardInterrupt\<close>,
  \<open>SystemExit\<close>): \<open>except Exception\<close> does not catch the latter.
\<close>

datatype exc_class =
    BaseException | Exception | ValueError | TypeError | OverflowError | OSError
  | ZeroDivisionError | KeyError | RuntimeError

datatype py_error = PyError (cls: exc_class) (message: string)

fun is_Exception :: "exc_class \<Rightarrow> bool" where
  "is_Exception BaseException = False"
| "is_Exception _ = True"

text \<open>\<open>except (ValueError, TypeError)\<close>\<close>

fun is_ValueError_or_TypeError :: "exc_class \<Rightarrow> bool" where
  "is_ValueError_or_TypeError ValueError = True"
| "is_ValueError_or_TypeError TypeError = True"
| "is_ValueError_or_TypeError _ = False"

subsection \<open>Strings: \<open>str.lower\<close>, \<open>in\<close>, \<open>str(int)\<close>, \<open>int(str)\<close>\<close>

definition lower_char :: "char \<Rightarrow> char" where
  "lower_char c =
     (let n = (of_char c :: nat)
      in if (65 \<le> n \<and> n \<le> 90) \<or> (192 \<le> n \<and> n \<le> 222 \<and> n \<noteq> 215)
         then char_of (n + 32) else c)"

definition lower :: "string \<Rightarrow> string" where
  "lower s = map lower_char s"

text \<open>\<open>needle in hay\<close> on strings: \<open>needle\<close> occurs as a contiguous substring.\<close>

fun py_in :: "string \<Rightarrow> string \<Rightarrow> bool" where
  "py_in needle [] = (needle = [])"
| "py_in needle (c # cs) =
     (take (length needle) (c # cs) = needle \<or> py_in needle cs)"

definition digit_char :: "nat \<Rightarrow> char" where
  "digit_char d = char_of (48 + d)"

function str_nat :: "nat \<Rightarrow> string" where
  "str_nat n = (if n < 10 then [digit_char n] else str_nat (n div 10) @ [digit_char (n mod 10)])"
  by pat_completeness auto
termination
  by (relation "measure id") auto

declare str_nat.simps [simp del]

definition str_int :: "int \<Rightarrow> string" where
  "str_int i = (if i < 0 then CHR ''-'' # str_nat (nat (- i)) else str_nat (nat i))"

definition is_digit :: "char \<Rightarrow> bool" where
  "is_digit c = (48 \<le> (of_char c :: nat) \<and> (of_char c :: nat) \<le> 57)"

text \<open>
  The characters \<open>int()\<close> strips from both ends of its argument: the six ASCII white-space
  characters and, of Latin-1, U+0085 and U+00A0.
\<close>

definition is_space :: "char \<Rightarrow> bool" where
  "is_space c = ((of_char c :: nat) \<in> {9, 10, 11, 12, 13, 32, 133, 160})"

definition strip :: "string \<Rightarrow> string" where
  "strip s = rev (dropWhile is_space (rev (dropWhile is_space s)))"

text \<open>
  The digits of a decimal literal: at least one digit, single underscores allowed between
  digits only. The flag says that the previous character was a digit.
\<close>

fun digits_ok :: "bool \<Rightarrow> string \<Rightarrow> bool" where
  "digits_ok d [] = d"
| "digits_ok d (c # cs) =
     (if is_digit c then digits_ok True cs
      else if c = CHR ''_'' \<and> d then digits_ok False cs
      else False)"

definition digits_value :: "string \<Rightarrow> int" where
  "digits_value s =
     foldl (\<lambda>acc c. 10 * acc + (int (of_char c) - 48)) 0 (filter is_digit s)"

text \<open>
  \<open>int(s)\<close> for a string \<open>s\<close>, base 10. \<open>None\<close> is \<open>ValueError\<close>. A literal of more than
  4300 digits is refused as well (the default \<open>sys.get_int_max_str_digits()\<close>).
\<close>

definition int_max_str_digits :: nat where
  "int_max_str_digits = 4300"

definition py_int :: "string \<Rightarrow> int option" where
  "py_int s =
     (let t = strip s;
          neg = (t \<noteq> [] \<and> hd t = CHR ''-'');
          body = (if t \<noteq> [] \<and> (hd t = CHR ''-'' \<or> hd t = CHR ''+'') then tl t else t)
      in if digits_ok False body \<and> length (filter is_digit body) \<le> int_max_str_digits
         then Some (if neg then - digits_value body else digits_value body)
         else None)"

text \<open>
  \<open>int(headers.get(key, 0))\<close>: the default \<open>0\<close> is an int, which \<open>int\<close> returns as it is.
  \<open>repr\<close> of a string is written for strings that need no escape; the messages built
  with it are only logged or raised on paths that the module itself never takes.
\<close>

definition repr :: "string \<Rightarrow> string" where
  "repr s = [CHR 0x27] @ s @ [CHR 0x27]"

definition int_of_header :: "(string \<rightharpoonup> string) \<Rightarrow> string \<Rightarrow> py_error + int" where
  "int_of_header hdrs key =
     (case hdrs key of
        None \<Rightarrow> Inr 0
      | Some v \<Rightarrow>
          (case py_int v of
             None \<Rightarrow>
               Inl (PyError ValueError (''invalid literal for int() with base 10: '' @ repr v))
           | Some i \<Rightarrow> Inr i))"

subsection \<open>Time\<close>

type_synonym datetime = int

text \<open>
  \<open>datetime.fromtimestamp(ts, timezone.utc)\<close> for an int \<open>ts\<close>, as CPython on 64-bit Linux
  does it: a value outside the platform's \<open>time_t\<close> is \<open>OverflowError\<close>, one that the C
  library's \<open>gmtime\<close> refuses is \<open>OSError\<close>, and a year outside 1..9999 is \<open>ValueError\<close>
  (its message, which names the year, is cut short: the parser catches it and logs it).
\<close>

definition fromtimestamp :: "int \<Rightarrow> py_error + datetime" where
  "fromtimestamp ts =
     (if ts < - (2 ^ 63) \<or> 2 ^ 63 \<le> ts
        then Inl (PyError OverflowError ''timestamp out of range for platform time_t'')
      else if ts < - 67768040609740800 \<or> 67768036191676799 < ts
        then Inl (PyError OSError ''[Errno 75] Value too large for defined data type'')
      else if ts < - 62135596800 \<or> 253402300799 < ts
        then Inl (PyError ValueError ''year is out of range'')
      else Inr (ts * 1000000))"

subsection \<open>Data: configuration, snapshots, the manager, the world outside\<close>

record config =
  max_retries :: int
  initial_delay :: real
  max_delay :: real
  backoff_factor :: real
  rate_limit_threshold :: real
  enable_jitter :: bool
  jitter_factor :: real

definition RateLimitConfig :: config where
  "RateLimitConfig =
     \<lparr>max_retries = 5, initial_delay = 1, max_delay = 3600, backoff_factor = 2,
      rate_limit_threshold = 1 / 10, enable_jitter = True, jitter_factor = 1 / 10\<rparr>"

record backoff_strategy =
  bs_initial_delay :: real
  bs_max_delay :: real
  bs_factor :: real
  bs_enable_jitter :: bool
  bs_jitter_factor :: real

text \<open>
  The dict that \<open>_parse_rate_limit_headers\<close> builds has these four keys or none: the
  empty dict is \<open>None\<close> of \<open>snapshot option\<close>.
\<close>

record snapshot =
  limit :: int
  remaining :: int
  reset :: datetime
  used :: int

record manager =
  config :: config
  backoff :: backoff_strategy
  rate_limits :: "string \<rightharpoonup> snapshot"
  retry_counts :: "string \<rightharpoonup> int"

text \<open>
  What an operation returns: \<open>headers = None\<close> when the object has no attribute
  \<open>headers\<close>, otherwise the dict from \<open>str\<close> to \<open>str\<close> found there, and the rest of the
  object as \<open>payload\<close>.
\<close>

record 'a result =
  headers :: "(string \<rightharpoonup> string) option"
  payload :: 'a

text \<open>
  The world outside the manager. \<open>op_world\<close> is whatever the operation reads and writes;
  \<open>invocations\<close> counts its calls; \<open>sleeps\<close> lists the arguments of \<open>time.sleep\<close> in
  order; \<open>clock k\<close> is what the \<open>k\<close>-th call of \<open>datetime.now\<close> returns and \<open>random k\<close>
  what the \<open>k\<close>-th call of \<open>random.random\<close> returns.
\<close>

record 'w env =
  op_world :: 'w
  invocations :: nat
  sleeps :: "real list"
  clock :: "nat \<Rightarrow> datetime"
  clock_reads :: nat
  random :: "nat \<Rightarrow> real"
  random_draws :: nat

text \<open>
  A callable: what a call does to its world, and its \<open>hash\<close>. A call returns a result
  or raises; it does not touch the manager.
\<close>

record ('w, 'a) callable =
  call :: "'w \<Rightarrow> (py_error + 'a result) \<times> 'w"
  hash :: int

definition sleep :: "real \<Rightarrow> 'w env \<Rightarrow> 'w env" where
  "sleep d e = e\<lparr>sleeps := sleeps e @ [d]\<rparr>"

definition now :: "'w env \<Rightarrow> datetime \<times> 'w env" where
  "now e = (clock e (clock_reads e), e\<lparr>clock_reads := Suc (clock_reads e)\<rparr>)"

text \<open>\<open>random.uniform(a, b)\<close> is \<open>a + (b - a) * random.random()\<close>.\<close>

definition uniform :: "real \<Rightarrow> real \<Rightarrow> 'w env \<Rightarrow> real \<times> 'w env" where
  "uniform a b e =
     (a + (b - a) * random e (random_draws e), e\<lparr>random_draws := Suc (random_draws e)\<rparr>)"

subsection \<open>\<open>BackoffStrategy\<close>\<close>

definition get_delay :: "backoff_strategy \<Rightarrow> int \<Rightarrow> 'w env \<Rightarrow> real \<times> 'w env" where
  "get_delay self attempt e =
     (let delay = min (bs_initial_delay self * power_int (bs_factor self) attempt)
                      (bs_max_delay self)
      in if bs_enable_jitter self
         then (case uniform 0 (bs_jitter_factor self * delay) e of
                 (jitter, e') \<Rightarrow> (delay + jitter, e'))
         else (delay, e))"

subsection \<open>\<open>RateLimitManager\<close>\<close>

definition RateLimitManager :: "config option \<Rightarrow> manager" where
  "RateLimitManager cfg =
     (let c = (case cfg of None \<Rightarrow> RateLimitConfig | Some c \<Rightarrow> c)
      in \<lparr>config = c,
          backoff = \<lparr>bs_initial_delay = initial_delay c, bs_max_delay = max_delay c,
                     bs_factor = backoff_factor c, bs_enable_jitter = enable_jitter c,
                     bs_jitter_factor = jitter_factor c\<rparr>,
          rate_limits = Map.empty,
          retry_counts = Map.empty\<rparr>)"

text \<open>
  The dict display of \<open>_parse_rate_limit_headers\<close> evaluates its four values in the
  order written; the first exception ends it.
\<close>

definition parse_fields :: "(string \<rightharpoonup> string) \<Rightarrow> py_error + snapshot" where
  "parse_fields hdrs =
     (case int_of_header hdrs ''X-RateLimit-Limit'' of
        Inl x \<Rightarrow> Inl x
      | Inr l \<Rightarrow>
     (case int_of_header hdrs ''X-RateLimit-Remaining'' of
        Inl x \<Rightarrow> Inl x
      | Inr r \<Rightarrow>
     (case int_of_header hdrs ''X-RateLimit-Reset'' of
        Inl x \<Rightarrow> Inl x
      | Inr ts \<Rightarrow>
     (case fromtimestamp ts of
        Inl x \<Rightarrow> Inl x
      | Inr t \<Rightarrow>
     (case int_of_header hdrs ''X-RateLimit-Used'' of
        Inl x \<Rightarrow> Inl x
      | Inr u \<Rightarrow> Inr \<lparr>limit = l, remaining = r, reset = t, used = u\<rparr>)))))"

definition parse_rate_limit_headers :: "(string \<rightharpoonup> string) \<Rightarrow> py_error + snapshot option" where
  "parse_rate_limit_headers hdrs =
     (case parse_fields hdrs of
        Inr s \<Rightarrow> Inr (Some s)
      | Inl x \<Rightarrow> if is_ValueError_or_TypeError (cls x) then Inr None else Inl x)"

definition should_retry :: "manager \<Rightarrow> string \<Rightarrow> snapshot option \<Rightarrow> py_error + bool" where
  "should_retry self operation_id rate_info =
     (case retry_counts self operation_id of
        None \<Rightarrow> Inl (PyError KeyError (repr operation_id))
      | Some c \<Rightarrow>
          if c \<ge> max_retries (config self) then Inr False
          else (case rate_info of
                  None \<Rightarrow> Inl (PyError KeyError (repr ''remaining''))
                | Some ri \<Rightarrow>
                    if limit ri = 0 then Inl (PyError ZeroDivisionError ''division by zero'')
                    else Inr (real_of_int (remaining ri) / real_of_int (limit ri)
                                \<le> rate_limit_threshold (config self))))"

definition wait_for_reset :: "datetime \<Rightarrow> 'w env \<Rightarrow> 'w env" where
  "wait_for_reset reset_time e =
     (case now e of
        (t, e') \<Rightarrow>
          if reset_time > t then sleep (real_of_int (reset_time - t) / 1000000) e' else e')"

definition reset_counts :: "manager \<Rightarrow> string option \<Rightarrow> manager" where
  "reset_counts self operation_id =
     (case operation_id of
        None \<Rightarrow> self\<lparr>retry_counts := Map.empty\<rparr>
      | Some i \<Rightarrow>
          if i \<noteq> [] then self\<lparr>retry_counts := (retry_counts self)(i := None)\<rparr>
          else self\<lparr>retry_counts := Map.empty\<rparr>)"

definition get_rate_limit_info :: "manager \<Rightarrow> string \<Rightarrow> snapshot option" where
  "get_rate_limit_info self operation_id = rate_limits self operation_id"

subsection \<open>\<open>execute_with_retry\<close>\<close>

text \<open>\<open>"rate limit exceeded" in str(e).lower()\<close>\<close>

definition is_rate_limit :: "py_error \<Rightarrow> bool" where
  "is_rate_limit x = py_in ''rate limit exceeded'' (lower (message x))"

text \<open>
  The \<open>try\<close> block of the loop (lines 126 to 147): one call of the operation and, when it
  returns, the handling of its result. The value is what the block returns (\<open>Inr\<close>) or
  the exception that leaves it (\<open>Inl\<close>), with the manager and the world as they are then.
\<close>

definition execute_try ::
  "manager \<Rightarrow> ('w, 'a) callable \<Rightarrow> string \<Rightarrow> 'w env
     \<Rightarrow> (py_error + 'a result) \<times> manager \<times> 'w env" where
  "execute_try self operation op_id e =
     (case call operation (op_world e) of
        (out, w') \<Rightarrow>
          let e1 = e\<lparr>op_world := w', invocations := Suc (invocations e)\<rparr>
          in (case out of
                Inl x \<Rightarrow> (Inl x, self, e1)
              | Inr res \<Rightarrow>
                  (case headers res of
                     None \<Rightarrow> (Inr res, self, e1)
                   | Some hdrs \<Rightarrow>
                       (case parse_rate_limit_headers hdrs of
                          Inl x \<Rightarrow> (Inl x, self, e1)
                        | Inr None \<Rightarrow> (Inr res, self, e1)
                        | Inr (Some rate_info) \<Rightarrow>
                            let self1 = self\<lparr>rate_limits := (rate_limits self)(op_id \<mapsto> rate_info)\<rparr>
                            in (case should_retry self1 op_id (Some rate_info) of
                                  Inl x \<Rightarrow> (Inl x, self1, e1)
                                | Inr False \<Rightarrow> (Inr res, self1, e1)
                                | Inr True \<Rightarrow>
                                    (case retry_counts self1 op_id of
                                       None \<Rightarrow> (Inl (PyError KeyError (repr op_id)), self1, e1)
                                     | Some c \<Rightarrow>
                                         (case get_delay (backoff self1) c e1 of
                                            (delay, e2) \<Rightarrow>
                                              (Inr res, self1, sleep delay e2))))))))"

text \<open>
  The \<open>except Exception as e\<close> block (lines 149 to 168) for a caught exception \<open>x\<close>.
  \<open>Some y\<close>: the block raises \<open>y\<close>; \<open>None\<close>: it ends and the loop goes on. A snapshot kept
  in \<open>rate_limits\<close> is never the empty dict and its \<open>reset\<close> is a \<open>datetime\<close>, which is
  never false: \<open>rate_info and rate_info.get('reset')\<close> holds exactly when a snapshot is
  stored for \<open>op_id\<close>.
\<close>

definition execute_except ::
  "manager \<Rightarrow> string \<Rightarrow> py_error \<Rightarrow> 'w env \<Rightarrow> py_error option \<times> manager \<times> 'w env" where
  "execute_except self op_id x e =
     (case retry_counts self op_id of
        None \<Rightarrow> (Some (PyError KeyError (repr op_id)), self, e)
      | Some c \<Rightarrow>
          let self1 = self\<lparr>retry_counts := (retry_counts self)(op_id \<mapsto> c + 1)\<rparr>
          in if is_rate_limit x
             then (case rate_limits self1 op_id of
                     Some rate_info \<Rightarrow> (None, self1, wait_for_reset (reset rate_info) e)
                   | None \<Rightarrow>
                       (case get_delay (backoff self1) (c + 1) e of
                          (delay, e') \<Rightarrow> (None, self1, sleep delay e')))
             else (Some x, self1, e))"

definition exhausted :: "manager \<Rightarrow> string \<Rightarrow> py_error" where
  "exhausted self op_id =
     PyError RuntimeError
       (''Operation '' @ op_id @ '' failed after '' @ str_int (max_retries (config self))
          @ '' retries'')"

text \<open>
  The \<open>while\<close> loop (lines 124 to 172). Each turn that goes on has raised the counter of
  \<open>op_id\<close> by one, which bounds the number of turns.
\<close>

function retry_loop ::
  "('w, 'a) callable \<Rightarrow> string \<Rightarrow> manager \<Rightarrow> 'w env
     \<Rightarrow> (py_error + 'a result) \<times> manager \<times> 'w env" where
  "retry_loop operation op_id self e =
     (case retry_counts self op_id of
        None \<Rightarrow> (Inl (PyError KeyError (repr op_id)), self, e)
      | Some c \<Rightarrow>
          if c < max_retries (config self)
          then (case execute_try self operation op_id e of
                  (Inr res, self1, e1) \<Rightarrow> (Inr res, self1, e1)
                | (Inl x, self1, e1) \<Rightarrow>
                    if is_Exception (cls x)
                    then (case execute_except self1 op_id x e1 of
                            (Some y, self2, e2) \<Rightarrow> (Inl y, self2, e2)
                          | (None, self2, e2) \<Rightarrow> retry_loop operation op_id self2 e2)
                    else (Inl x, self1, e1))
          else (Inl (exhausted self op_id), self, e))"
  by pat_completeness auto

termination
proof (relation "measure (\<lambda>(operation, op_id, self, e).
         nat (max_retries (config self)
              - (case retry_counts self op_id of None \<Rightarrow> 0 | Some c \<Rightarrow> c)))",
       goal_cases)
  case 1
  show ?case by simp
next
  case (2 operation op_id self e c r p x self1 e1 q pp self2 e2)
  from 2 have "execute_try self operation op_id e = (Inl x, self1, e1)"
    by metis
  then have f1: "retry_counts self1 = retry_counts self" "config self1 = config self"
    by (auto simp: execute_try_def Let_def
             split: prod.splits sum.splits option.splits bool.splits)
  from 2 have "execute_except self1 op_id x e1 = (None, self2, e2)"
    by metis
  with f1 2(1)
  have "retry_counts self2 op_id = Some (c + 1)" "config self2 = config self"
    by (auto simp: execute_except_def Let_def
             split: prod.splits option.splits if_splits)
  with 2(1,2) show ?case by simp
qed

declare retry_loop.simps [simp del]

text \<open>
  \<open>operation_id or str(hash(operation))\<close>: \<open>None\<close> and the empty string are false.
  \<open>setdefault\<close> writes the counter only where there is none.
\<close>

definition resolve_id :: "('w, 'a) callable \<Rightarrow> string option \<Rightarrow> string" where
  "resolve_id operation operation_id =
     (case operation_id of
        None \<Rightarrow> str_int (hash operation)
      | Some i \<Rightarrow> if i \<noteq> [] then i else str_int (hash operation))"

definition setdefault :: "('k \<rightharpoonup> 'v) \<Rightarrow> 'k \<Rightarrow> 'v \<Rightarrow> ('k \<rightharpoonup> 'v)" where
  "setdefault d k v = (case d k of None \<Rightarrow> d(k \<mapsto> v) | Some _ \<Rightarrow> d)"

definition execute_with_retry ::
  "manager \<Rightarrow> ('w, 'a) callable \<Rightarrow> string option \<Rightarrow> 'w env
     \<Rightarrow> (py_error + 'a result) \<times> manager \<times> 'w env" where
  "execute_with_retry self operation operation_id e =
     (let op_id = resolve_id operation operation_id
      in retry_loop operation op_id
           (self\<lparr>retry_counts := setdefault (retry_counts self) op_id 0\<rparr>) e)"

subsection \<open>Sample inputs\<close>

text \<open>A world whose clock stands at 2023-11-14 22:13:20 UTC and whose random source gives 1/2.\<close>

definition sample_clock :: "nat \<Rightarrow> datetime" where
  "sample_clock k = 1700000000000000"

definition sample_random :: "nat \<Rightarrow> real" where
  "sample_random k = 1 / 2"

definition env0 :: "nat env" where
  "env0 = \<lparr>op_world = 0, invocations = 0, sleeps = [], clock = sample_clock, clock_reads = 0,
            random = sample_random, random_draws = 0\<rparr>"


text \<open>An operation that raises \<open>Exception("boom")\<close> at every call.\<close>

definition boom_call :: "nat \<Rightarrow> (py_error + unit result) \<times> nat" where
  "boom_call w = (Inl (PyError Exception ''boom''), Suc w)"

definition boom :: "(nat, unit) callable" where
  "boom = \<lparr>call = boom_call, hash = 1791313\<rparr>"

text \<open>An operation that raises \<open>Exception("rate limit exceeded")\<close> at every call.\<close>

definition limited_call :: "nat \<Rightarrow> (py_error + unit result) \<times> nat" where
  "limited_call w = (Inl (PyError Exception ''rate limit exceeded''), Suc w)"

definition limited :: "(nat, unit) callable" where
  "limited = \<lparr>call = limited_call, hash = 1791313\<rparr>"



definition manager0 :: manager where
  "manager0 = RateLimitManager None"

definition config2 :: config where
  "config2 = RateLimitConfig\<lparr>max_retries := 2, initial_delay := 1 / 10, max_delay := 2 / 10\<rparr>"

definition manager2 :: manager where
  "manager2 = RateLimitManager (Some config2)"


text \<open>
  An operation that returns an object whose \<open>headers\<close> is the empty dict: no
  \<open>X-RateLimit-Limit\<close>, as with a server that sends no rate limit headers.
\<close>

definition bare_call :: "nat \<Rightarrow> (py_error + unit result) \<times> nat" where
  "bare_call w = (Inr \<lparr>headers = Some Map.empty, payload = ()\<rparr>, Suc w)"

definition bare :: "(nat, unit) callable" where
  "bare = \<lparr>call = bare_call, hash = 1791313\<rparr>"


definition manager23 :: manager where
  "manager23 = manager0\<lparr>retry_counts := [''op1'' \<mapsto> 2, ''op2'' \<mapsto> 3],
                        rate_limits := [''op1'' \<mapsto> \<lparr>limit = 5000, remaining = 4999,
                                                     reset = 1700000000000000, used = 1\<rparr>]\<rparr>"

text \<open>
  An operation whose result carries a reset time beyond the platform's \<open>time_t\<close> and a
  count of used calls that is not a number.
\<close>

definition late_headers :: "string \<rightharpoonup> string" where
  "late_headers = [''X-RateLimit-Reset'' \<mapsto> ''9223372036854775808'',
                   ''X-RateLimit-Used'' \<mapsto> ''abc'']"

definition late_call :: "nat \<Rightarrow> (py_error + unit result) \<times> nat" where
  "late_call w = (Inr \<lparr>headers = Some late_headers, payload = ()\<rparr>, Suc w)"

definition late :: "(nat, unit) callable" where
  "late = \<lparr>call = late_call, hash = 1791313\<rparr>"


text \<open>A manager that holds, for \<open>test_op\<close>, the snapshot parsed from headers without any key.\<close>

definition manager_epoch :: manager where
  "manager_epoch =
     manager0\<lparr>rate_limits := [''test_op'' \<mapsto> \<lparr>limit = 0, remaining = 0, reset = 0, used = 0\<rparr>],
              retry_counts := [''test_op'' \<mapsto> 0]\<rparr>"

section \<open>Properties\<close>

subsection \<open>What the waits leave alone\<close>

lemma sleep_frame [simp]:
  "op_world (sleep d e) = op_world e" "invocations (sleep d e) = invocations e"
  "clock (sleep d e) = clock e" "clock_reads (sleep d e) = clock_reads e"
  "random (sleep d e) = random e" "random_draws (sleep d e) = random_draws e"
  by (simp_all add: sleep_def)


lemma wait_for_reset_frame [simp]:
  "op_world (wait_for_reset t e) = op_world e"
  "invocations (wait_for_reset t e) = invocations e"
  by (simp_all add: wait_for_reset_def now_def)

lemma execute_try_frame:
  assumes "execute_try self operation op_id e = (r, self1, e1)"
  shows "retry_counts self1 = retry_counts self" "config self1 = config self"
    "backoff self1 = backoff self"
  using assms
  by (auto simp: execute_try_def Let_def
           split: prod.splits sum.splits option.splits bool.splits)

lemma setdefault_present [simp]: "d k = Some v \<Longrightarrow> setdefault d k w = d"
  by (simp add: setdefault_def)

lemma setdefault_absent [simp]: "d k = None \<Longrightarrow> setdefault d k w = d(k \<mapsto> w)"
  by (simp add: setdefault_def)

lemma setdefault_lookup: "setdefault d k w k = Some (case d k of None \<Rightarrow> w | Some v \<Rightarrow> v)"
  by (simp add: setdefault_def split: option.splits)

subsection \<open>One turn of the loop\<close>

lemma retry_loop_exhausted:
  assumes "retry_counts self op_id = Some c" "max_retries (config self) \<le> c"
  shows "retry_loop operation op_id self e = (Inl (exhausted self op_id), self, e)"
  using assms by (simp add: retry_loop.simps)

lemma retry_loop_propagates:
  assumes "retry_counts self op_id = Some c" "c < max_retries (config self)"
    and "call operation (op_world e) = (Inl x, w')"
    and "is_Exception (cls x)" "\<not> is_rate_limit x"
  shows "retry_loop operation op_id self e =
           (Inl x, self\<lparr>retry_counts := (retry_counts self)(op_id \<mapsto> c + 1)\<rparr>,
            e\<lparr>op_world := w', invocations := Suc (invocations e)\<rparr>)"
  using assms by (simp add: retry_loop.simps execute_try_def execute_except_def)

subsection \<open>The counter at entry\<close>

text \<open>
  C9. When the counter stored for the resolved operation id is already at or above
  \<open>max_retries\<close> at entry, \<open>execute_with_retry\<close> raises the \<open>RuntimeError\<close> of
  exhaustion at once: the operation is not called (the world, with its count of
  invocations, is as before) and the manager is unchanged.
\<close>

theorem exhausted_at_entry:
  assumes "retry_counts self (resolve_id operation operation_id) = Some c"
    and "max_retries (config self) \<le> c"
  shows "execute_with_retry self operation operation_id e =
           (Inl (exhausted self (resolve_id operation operation_id)), self, e)
         \<and> invocations (snd (snd (execute_with_retry self operation operation_id e)))
             = invocations e"
  using assms by (simp add: execute_with_retry_def retry_loop_exhausted)

lemma exhausted_manager2: "exhausted manager2 ''test_op'' =
    PyError RuntimeError ''Operation test_op failed after 2 retries''"
  by code_simp

theorem exhausted_at_entry_witness:
  "execute_with_retry (manager2\<lparr>retry_counts := [''test_op'' \<mapsto> 2]\<rparr>) limited (Some ''test_op'') env0
     = (Inl (PyError RuntimeError ''Operation test_op failed after 2 retries''),
        manager2\<lparr>retry_counts := [''test_op'' \<mapsto> 2]\<rparr>, env0)
   \<and> invocations (snd (snd (execute_with_retry (manager2\<lparr>retry_counts := [''test_op'' \<mapsto> 2]\<rparr>)
         limited (Some ''test_op'') env0))) = 0"
proof -
  have id: "resolve_id limited (Some ''test_op'') = ''test_op''"
    by (simp add: resolve_id_def)
  have c: "retry_counts (manager2\<lparr>retry_counts := [''test_op'' \<mapsto> 2]\<rparr>)
             (resolve_id limited (Some ''test_op'')) = Some 2"
    by (simp add: id)
  have m: "max_retries (config (manager2\<lparr>retry_counts := [''test_op'' \<mapsto> 2]\<rparr>)) \<le> 2"
    by (simp add: manager2_def RateLimitManager_def config2_def)
  have x: "exhausted (manager2\<lparr>retry_counts := [''test_op'' \<mapsto> 2]\<rparr>) ''test_op''
             = exhausted manager2 ''test_op''"
    by (simp add: exhausted_def)
  have i: "invocations env0 = 0"
    by (simp add: env0_def)
  show ?thesis
    using exhausted_at_entry [OF c m, of env0]
    by (simp add: id x exhausted_manager2 i)
qed

subsection \<open>A failure that is not a rate limit\<close>

text \<open>
  C1, as amended. Let the counter of the resolved operation id be \<open>c\<close> at entry (0 when
  there is none), below \<open>max_retries\<close>, and let the first call of the operation raise an
  exception \<open>x\<close> derived from \<open>Exception\<close> whose message does not contain "rate limit
  exceeded" in any case. Then \<open>execute_with_retry\<close> raises \<open>x\<close> itself, after that one
  call and without any wait; the counter of the id is \<open>c + 1\<close> afterwards: the failed
  attempt is counted.
\<close>

theorem other_failure_propagates:
  assumes "retry_counts self (resolve_id operation operation_id) = Some c
           \<or> retry_counts self (resolve_id operation operation_id) = None \<and> c = 0"
    and "c < max_retries (config self)"
    and "call operation (op_world e) = (Inl x, w')"
    and "is_Exception (cls x)" "\<not> is_rate_limit x"
  shows "execute_with_retry self operation operation_id e =
           (Inl x,
            self\<lparr>retry_counts :=
                   (retry_counts self)(resolve_id operation operation_id \<mapsto> c + 1)\<rparr>,
            e\<lparr>op_world := w', invocations := Suc (invocations e)\<rparr>)"
proof -
  let ?i = "resolve_id operation operation_id"
  let ?s = "self\<lparr>retry_counts := setdefault (retry_counts self) ?i 0\<rparr>"
  from assms(1) have c: "retry_counts ?s ?i = Some c"
    by (auto simp: setdefault_lookup)
  from assms(2) have m: "c < max_retries (config ?s)"
    by simp
  from assms(1) have u: "(setdefault (retry_counts self) ?i 0)(?i \<mapsto> c + 1)
                         = (retry_counts self)(?i \<mapsto> c + 1)"
    by auto
  show ?thesis
    using retry_loop_propagates [OF c m assms(3) assms(4) assms(5)] u
    by (simp add: execute_with_retry_def)
qed

lemma boom_not_rate_limit: "\<not> is_rate_limit (PyError Exception ''boom'')"
  by code_simp

lemma manager0_max_retries: "max_retries (config manager0) = 5"
  by (simp add: manager0_def RateLimitManager_def RateLimitConfig_def)

theorem other_failure_propagates_witness:
  "execute_with_retry manager0 boom (Some ''test_op'') env0 =
     (Inl (PyError Exception ''boom''),
      manager0\<lparr>retry_counts := (retry_counts manager0)(''test_op'' \<mapsto> 1)\<rparr>,
      env0\<lparr>op_world := 1, invocations := 1\<rparr>)"
proof -
  have id: "resolve_id boom (Some ''test_op'') = ''test_op''"
    by (simp add: resolve_id_def)
  have c: "retry_counts manager0 (resolve_id boom (Some ''test_op'')) = Some 0
           \<or> retry_counts manager0 (resolve_id boom (Some ''test_op'')) = None \<and> (0::int) = 0"
    by (simp add: manager0_def RateLimitManager_def)
  have m: "0 < max_retries (config manager0)"
    by (simp add: manager0_max_retries)
  have call: "call boom (op_world env0) = (Inl (PyError Exception ''boom''), 1)"
    by (simp add: boom_def boom_call_def env0_def)
  have ex: "is_Exception (cls (PyError Exception ''boom''))"
    by simp
  show ?thesis
    using other_failure_propagates [OF c m call ex boom_not_rate_limit]
    by (simp add: id env0_def)
qed

text \<open>
  The claim as stated fails: \<open>Exception("boom")\<close> is not a rate limit failure, it is
  raised unwrapped, and the counter of the id, 0 before the call, is 1 after it.
\<close>

theorem other_failure_counter_counterexample:
  "\<not> is_rate_limit (PyError Exception ''boom'')
   \<and> fst (execute_with_retry (manager0\<lparr>retry_counts := [''test_op'' \<mapsto> 0]\<rparr>) boom
            (Some ''test_op'') env0) = Inl (PyError Exception ''boom'')
   \<and> retry_counts (manager0\<lparr>retry_counts := [''test_op'' \<mapsto> 0]\<rparr>) ''test_op'' = Some 0
   \<and> retry_counts (fst (snd (execute_with_retry (manager0\<lparr>retry_counts := [''test_op'' \<mapsto> 0]\<rparr>)
         boom (Some ''test_op'') env0))) ''test_op'' = Some 1"
proof -
  let ?m = "manager0\<lparr>retry_counts := [''test_op'' \<mapsto> 0]\<rparr>"
  have c: "retry_counts ?m ''test_op'' = Some 0"
    by simp
  have m: "0 < max_retries (config ?m)"
    by (simp add: manager0_max_retries)
  have call: "call boom (op_world env0) = (Inl (PyError Exception ''boom''), 1)"
    by (simp add: boom_def boom_call_def env0_def)
  have ex: "is_Exception (cls (PyError Exception ''boom''))"
    by simp
  have "retry_loop boom ''test_op'' ?m env0 =
          (Inl (PyError Exception ''boom''),
           ?m\<lparr>retry_counts := (retry_counts ?m)(''test_op'' \<mapsto> 0 + 1)\<rparr>,
           env0\<lparr>op_world := 1, invocations := Suc (invocations env0)\<rparr>)"
    by (rule retry_loop_propagates [OF c m call ex boom_not_rate_limit])
  then show ?thesis
    by (simp add: execute_with_retry_def resolve_id_def boom_not_rate_limit)
qed

subsection \<open>\<open>_should_retry\<close>\<close>

lemma zero_limit_divides:
  assumes "retry_counts self operation_id = Some c" "c < max_retries (config self)"
    and "limit ri = 0"
  shows "should_retry self operation_id (Some ri)
           = Inl (PyError ZeroDivisionError ''division by zero'')"
  using assms by (simp add: should_retry_def)

lemma parse_no_headers:
  "parse_rate_limit_headers Map.empty
     = Inr (Some \<lparr>limit = 0, remaining = 0, reset = 0, used = 0\<rparr>)"
  by (simp add: parse_rate_limit_headers_def parse_fields_def int_of_header_def
        fromtimestamp_def)

lemma division_by_zero_not_rate_limit:
  "\<not> is_rate_limit (PyError ZeroDivisionError ''division by zero'')"
  by code_simp

text \<open>
  C2. The code does not guard the division. For an id whose counter is 0 and a snapshot
  with \<open>limit = 0\<close>, \<open>_should_retry\<close> raises \<open>ZeroDivisionError\<close> where the claim has it
  return false. Such a snapshot is what \<open>_parse_rate_limit_headers\<close> makes of headers
  without \<open>X-RateLimit-Limit\<close>, so \<open>execute_with_retry\<close> raises \<open>ZeroDivisionError\<close>
  for an operation that returned normally.
\<close>

theorem should_retry_zero_limit_raises:
  "should_retry (manager0\<lparr>retry_counts := [''test_op'' \<mapsto> 0]\<rparr>) ''test_op''
       (Some \<lparr>limit = 0, remaining = 0, reset = 0, used = 0\<rparr>)
     = Inl (PyError ZeroDivisionError ''division by zero'')
   \<and> fst (execute_with_retry manager0 bare (Some ''test_op'') env0)
     = Inl (PyError ZeroDivisionError ''division by zero'')"
proof -
  let ?m = "manager0\<lparr>retry_counts := [''test_op'' \<mapsto> 0]\<rparr>"
  let ?z = "\<lparr>limit = 0, remaining = 0, reset = 0, used = 0\<rparr>"
  have a: "should_retry ?m ''test_op'' (Some ?z)
             = Inl (PyError ZeroDivisionError ''division by zero'')"
    by (rule zero_limit_divides [where c = 0]) (simp_all add: manager0_max_retries)
  have s: "should_retry (?m\<lparr>rate_limits := (rate_limits ?m)(''test_op'' \<mapsto> ?z)\<rparr>) ''test_op''
             (Some ?z) = Inl (PyError ZeroDivisionError ''division by zero'')"
    by (rule zero_limit_divides [where c = 0]) (simp_all add: manager0_max_retries)
  have m0: "manager0\<lparr>retry_counts := setdefault (retry_counts manager0) ''test_op'' 0\<rparr> = ?m"
    by (simp add: manager0_def RateLimitManager_def)
  have t: "execute_try ?m bare ''test_op'' env0 =
             (Inl (PyError ZeroDivisionError ''division by zero''),
              ?m\<lparr>rate_limits := (rate_limits ?m)(''test_op'' \<mapsto> ?z)\<rparr>,
              env0\<lparr>op_world := 1, invocations := 1\<rparr>)"
    using s
    by (simp add: execute_try_def bare_def bare_call_def env0_def parse_no_headers)
  have "fst (retry_loop bare ''test_op'' ?m env0)
          = Inl (PyError ZeroDivisionError ''division by zero'')"
    by (simp add: retry_loop.simps [of bare "''test_op''" ?m env0] manager0_max_retries t
          execute_except_def division_by_zero_not_rate_limit)
  then have b: "fst (execute_with_retry manager0 bare (Some ''test_op'') env0)
          = Inl (PyError ZeroDivisionError ''division by zero'')"
    by (simp add: execute_with_retry_def resolve_id_def Let_def m0)
  from a b show ?thesis ..
qed



subsection \<open>\<open>BackoffStrategy.get_delay\<close>\<close>



subsection \<open>\<open>reset_counts\<close>\<close>

text \<open>
  C8, as amended. \<open>reset_counts\<close> with a non-empty id removes the counter of that id and
  leaves the counter of every other id as it was; with no id, or with the empty string
  for an id, it removes every counter; in all cases every stored snapshot is as before.
\<close>

theorem reset_counts_spec:
  "(i \<noteq> [] \<longrightarrow>
      retry_counts (reset_counts self (Some i)) i = None
      \<and> (\<forall>j. j \<noteq> i \<longrightarrow> retry_counts (reset_counts self (Some i)) j = retry_counts self j)
      \<and> rate_limits (reset_counts self (Some i)) = rate_limits self)
   \<and> retry_counts (reset_counts self None) = Map.empty
   \<and> rate_limits (reset_counts self None) = rate_limits self
   \<and> retry_counts (reset_counts self (Some [])) = Map.empty
   \<and> rate_limits (reset_counts self (Some [])) = rate_limits self"
  by (simp add: reset_counts_def)

theorem reset_counts_spec_witness:
  "retry_counts manager23 ''op1'' = Some 2
   \<and> retry_counts (reset_counts manager23 (Some ''op1'')) ''op1'' = None
   \<and> retry_counts (reset_counts manager23 (Some ''op1'')) ''op2'' = Some 3
   \<and> rate_limits (reset_counts manager23 (Some ''op1'')) = rate_limits manager23
   \<and> retry_counts (reset_counts manager23 None) ''op2'' = None
   \<and> rate_limits (reset_counts manager23 None) ''op1''
       = Some \<lparr>limit = 5000, remaining = 4999, reset = 1700000000000000, used = 1\<rparr>"
proof -
  have c: "retry_counts manager23 ''op1'' = Some 2" "retry_counts manager23 ''op2'' = Some 3"
    "rate_limits manager23 ''op1''
       = Some \<lparr>limit = 5000, remaining = 4999, reset = 1700000000000000, used = 1\<rparr>"
    by (simp_all add: manager23_def)
  have n: "''op1'' \<noteq> []" "''op2'' \<noteq> ''op1''"
    by simp_all
  show ?thesis
    using reset_counts_spec [of "''op1''" manager23] c n
    by simp
qed

text \<open>
  The claim as stated fails for the id \<open>''''\<close>: \<open>reset_counts\<close> tests its argument for
  truth, the empty string is false, and the counters of all other ids are removed.
\<close>

theorem reset_counts_empty_id_counterexample:
  "retry_counts manager23 ''op2'' = Some 3
   \<and> retry_counts (reset_counts manager23 (Some [])) ''op2'' = None"
  by (simp add: reset_counts_def manager23_def)

subsection \<open>\<open>_parse_rate_limit_headers\<close>\<close>

lemma int_of_header_cases:
  "int_of_header hdrs key = Inl x \<Longrightarrow>
     cls x = ValueError \<and> (\<exists>v. hdrs key = Some v \<and> py_int v = None)"
  by (auto simp: int_of_header_def split: option.splits)

lemma int_of_header_non_numeric:
  "hdrs key = Some v \<Longrightarrow> py_int v = None \<Longrightarrow> \<exists>x. int_of_header hdrs key = Inl x \<and> cls x = ValueError"
  by (simp add: int_of_header_def)

lemma fromtimestamp_cases:
  "fromtimestamp ts = Inl x \<Longrightarrow>
     cls x = ValueError \<and> - 67768040609740800 \<le> ts \<and> ts \<le> 67768036191676799
     \<or> (cls x = OverflowError \<or> cls x = OSError)
        \<and> (ts < - 67768040609740800 \<or> 67768036191676799 < ts)"
  by (auto simp: fromtimestamp_def split: if_splits)

text \<open>
  The parser raises only on a reset time that is a number outside what the C library's
  \<open>gmtime\<close> takes.
\<close>

lemma int_of_header_numeric:
  "int_of_header hdrs key = Inr i \<Longrightarrow> hdrs key = Some v \<Longrightarrow> py_int v = Some i"
  by (auto simp: int_of_header_def split: option.splits)

lemma parse_raises_only_on_reset_range:
  assumes "parse_rate_limit_headers hdrs = Inl x"
  shows "(cls x = OverflowError \<or> cls x = OSError)
         \<and> (\<exists>v ts. hdrs ''X-RateLimit-Reset'' = Some v \<and> py_int v = Some ts
                \<and> (ts < - 67768040609740800 \<or> 67768036191676799 < ts))
         \<and> (\<exists>l. int_of_header hdrs ''X-RateLimit-Limit'' = Inr l)
         \<and> (\<exists>r. int_of_header hdrs ''X-RateLimit-Remaining'' = Inr r)"
proof -
  from assms obtain l r ts where
    l: "int_of_header hdrs ''X-RateLimit-Limit'' = Inr l"
    and r: "int_of_header hdrs ''X-RateLimit-Remaining'' = Inr r"
    and ts: "int_of_header hdrs ''X-RateLimit-Reset'' = Inr ts" and f: "fromtimestamp ts = Inl x"
    and nv: "\<not> is_ValueError_or_TypeError (cls x)"
    by (auto simp: parse_rate_limit_headers_def parse_fields_def
             split: sum.splits if_splits dest!: int_of_header_cases)
  from fromtimestamp_cases [OF f] nv
  have c: "cls x = OverflowError \<or> cls x = OSError"
    and range: "ts < - 67768040609740800 \<or> 67768036191676799 < ts"
    by auto
  from range have "ts \<noteq> 0" by auto
  with ts obtain v where "hdrs ''X-RateLimit-Reset'' = Some v" "py_int v = Some ts"
    by (auto simp: int_of_header_def split: option.splits)
  with c range l r show ?thesis by blast
qed

text \<open>
  A value that is not a number in one of the first three fields gives the empty
  snapshot; in \<open>X-RateLimit-Used\<close> it does when the reset time before it converts (or
  fails with \<open>ValueError\<close>).
\<close>

lemma parse_non_numeric_empty:
  assumes "py_int v = None"
    and "hdrs ''X-RateLimit-Limit'' = Some v \<or> hdrs ''X-RateLimit-Remaining'' = Some v
         \<or> hdrs ''X-RateLimit-Reset'' = Some v
         \<or> hdrs ''X-RateLimit-Used'' = Some v
            \<and> (\<forall>w ts. hdrs ''X-RateLimit-Reset'' = Some w \<and> py_int w = Some ts
                    \<longrightarrow> - 67768040609740800 \<le> ts \<and> ts \<le> 67768036191676799)"
  shows "parse_rate_limit_headers hdrs = Inr None"
proof (cases "parse_rate_limit_headers hdrs")
  case (Inl x)
  from parse_raises_only_on_reset_range [OF Inl] assms show ?thesis
    by (auto dest: int_of_header_numeric)
next
  case (Inr s)
  show ?thesis
  proof (cases s)
    case None
    with Inr show ?thesis by simp
  next
    case (Some ri)
    with Inr have "\<exists>l r ts u. int_of_header hdrs ''X-RateLimit-Limit'' = Inr l
        \<and> int_of_header hdrs ''X-RateLimit-Remaining'' = Inr r
        \<and> int_of_header hdrs ''X-RateLimit-Reset'' = Inr ts
        \<and> int_of_header hdrs ''X-RateLimit-Used'' = Inr u"
      by (auto simp: parse_rate_limit_headers_def parse_fields_def
               split: sum.splits if_splits)
    with assms show ?thesis
      by (auto dest: int_of_header_numeric)
  qed
qed

lemma overflow_not_rate_limit:
  "\<not> is_rate_limit (PyError OverflowError ''timestamp out of range for platform time_t'')"
  by code_simp

lemma parse_late_headers:
  "parse_rate_limit_headers late_headers
     = Inl (PyError OverflowError ''timestamp out of range for platform time_t'')"
  by code_simp

text \<open>
  C7. The header map \<open>late_headers\<close> has a value that is not a number
  (\<open>X-RateLimit-Used\<close> is \<open>abc\<close>), yet \<open>_parse_rate_limit_headers\<close> does not return the
  empty snapshot: the reset time, converted before, is outside \<open>time_t\<close>, and the
  \<open>OverflowError\<close> of \<open>datetime.fromtimestamp\<close> is not among the exceptions the parser
  catches. \<open>execute_with_retry\<close> passes it on to the caller.
\<close>

theorem parse_overflow_escapes:
  "py_int ''abc'' = None
   \<and> parse_rate_limit_headers late_headers
       = Inl (PyError OverflowError ''timestamp out of range for platform time_t'')
   \<and> fst (execute_with_retry manager0 late (Some ''test_op'') env0)
       = Inl (PyError OverflowError ''timestamp out of range for platform time_t'')"
proof -
  let ?m = "manager0\<lparr>retry_counts := [''test_op'' \<mapsto> 0]\<rparr>"
  have a: "py_int ''abc'' = None"
    by code_simp
  have m0: "manager0\<lparr>retry_counts := setdefault (retry_counts manager0) ''test_op'' 0\<rparr> = ?m"
    by (simp add: manager0_def RateLimitManager_def)
  have t: "execute_try ?m late ''test_op'' env0 =
             (Inl (PyError OverflowError ''timestamp out of range for platform time_t''),
              ?m, env0\<lparr>op_world := 1, invocations := 1\<rparr>)"
    by (simp add: execute_try_def late_def late_call_def env0_def parse_late_headers)
  have "fst (retry_loop late ''test_op'' ?m env0)
          = Inl (PyError OverflowError ''timestamp out of range for platform time_t'')"
    by (simp add: retry_loop.simps [of late "''test_op''" ?m env0] manager0_max_retries t
          execute_except_def overflow_not_rate_limit)
  then have b: "fst (execute_with_retry manager0 late (Some ''test_op'') env0)
          = Inl (PyError OverflowError ''timestamp out of range for platform time_t'')"
    by (simp add: execute_with_retry_def resolve_id_def Let_def m0)
  from a parse_late_headers b show ?thesis by blast
qed

subsection \<open>Rate limit failures\<close>






lemma limited_is_rate_limit: "is_rate_limit (PyError Exception ''rate limit exceeded'')"
  by code_simp


subsection \<open>A rate limit failure, then a result\<close>








subsection \<open>A snapshot without a reset time\<close>

lemma parse_without_reset:
  assumes "parse_rate_limit_headers hdrs = Inr (Some ri)"
    and "hdrs ''X-RateLimit-Reset'' = None"
  shows "reset ri = 0"
  using assms
  by (auto simp: parse_rate_limit_headers_def parse_fields_def int_of_header_def
        fromtimestamp_def split: sum.splits if_splits)

lemma wait_for_reset_past:
  assumes "t \<le> clock e (clock_reads e)"
  shows "wait_for_reset t e = e\<lparr>clock_reads := Suc (clock_reads e)\<rparr>"
  using assms by (simp add: wait_for_reset_def now_def)

lemma execute_except_past_reset:
  assumes "rate_limits self op_id = Some ri" "retry_counts self op_id = Some c"
    and "is_rate_limit x" "reset ri \<le> clock e (clock_reads e)"
  shows "execute_except self op_id x e
           = (None, self\<lparr>retry_counts := (retry_counts self)(op_id \<mapsto> c + 1)\<rparr>,
              e\<lparr>clock_reads := Suc (clock_reads e)\<rparr>)"
  using assms by (simp add: execute_except_def wait_for_reset_past)

lemma retry_loop_past_reset:
  assumes "rate_limits self op_id = Some ri" "retry_counts self op_id = Some c"
    and "c < max_retries (config self)"
    and "call operation (op_world e) = (Inl x, w')"
    and "is_Exception (cls x)" "is_rate_limit x"
    and "reset ri \<le> clock e (clock_reads e)"
  shows "retry_loop operation op_id self e
           = retry_loop operation op_id
               (self\<lparr>retry_counts := (retry_counts self)(op_id \<mapsto> c + 1)\<rparr>)
               (e\<lparr>op_world := w', invocations := Suc (invocations e),
                  clock_reads := Suc (clock_reads e)\<rparr>)"
proof -
  let ?e1 = "e\<lparr>op_world := w', invocations := Suc (invocations e)\<rparr>"
  have t: "execute_try self operation op_id e = (Inl x, self, ?e1)"
    using assms(4) by (simp add: execute_try_def)
  have "reset ri \<le> clock ?e1 (clock_reads ?e1)"
    using assms(7) by simp
  from execute_except_past_reset [OF assms(1) assms(2) assms(6) this]
  have x: "execute_except self op_id x ?e1
             = (None, self\<lparr>retry_counts := (retry_counts self)(op_id \<mapsto> c + 1)\<rparr>,
                e\<lparr>op_world := w', invocations := Suc (invocations e),
                  clock_reads := Suc (clock_reads e)\<rparr>)"
    by simp
  show ?thesis
    using assms(2,3,5)
    by (simp add: retry_loop.simps [of operation op_id self e] t x)
qed

text \<open>
  Over a whole run: with a stored snapshot whose reset time no reading of the clock
  precedes, an operation that raises a rate limit failure at every call is retried
  without a single \<open>time.sleep\<close> and without a single random number drawn.
\<close>

lemma retry_loop_past_reset_never_sleeps:
  assumes "\<forall>w. \<exists>x w'. call operation w = (Inl x, w') \<and> is_Exception (cls x) \<and> is_rate_limit x"
    and "rate_limits self op_id = Some ri" "\<forall>k. reset ri \<le> clock e k"
    and "retry_counts self op_id = Some c"
    and "n = nat (max_retries (config self) - c)"
  shows "sleeps (snd (snd (retry_loop operation op_id self e))) = sleeps e
         \<and> random_draws (snd (snd (retry_loop operation op_id self e))) = random_draws e
         \<and> clock_reads (snd (snd (retry_loop operation op_id self e))) = clock_reads e + n"
  using assms(2-5)
proof (induction n arbitrary: self e c)
  case 0
  then have "max_retries (config self) \<le> c" by simp
  from retry_loop_exhausted [OF "0.prems"(3) this, of operation e] show ?case by simp
next
  case (Suc n)
  then have less: "c < max_retries (config self)" by simp
  from assms(1) obtain x w' where call: "call operation (op_world e) = (Inl x, w')"
    and ex: "is_Exception (cls x)" and rl: "is_rate_limit x"
    by blast
  let ?s = "self\<lparr>retry_counts := (retry_counts self)(op_id \<mapsto> c + 1)\<rparr>"
  let ?e = "e\<lparr>op_world := w', invocations := Suc (invocations e),
              clock_reads := Suc (clock_reads e)\<rparr>"
  from Suc.prems(2) have past: "reset ri \<le> clock e (clock_reads e)" by simp
  from retry_loop_past_reset [OF Suc.prems(1) Suc.prems(3) less call ex rl past]
  have step: "retry_loop operation op_id self e = retry_loop operation op_id ?s ?e" .
  have r': "rate_limits ?s op_id = Some ri" using Suc.prems(1) by simp
  have k': "\<forall>k. reset ri \<le> clock ?e k" using Suc.prems(2) by simp
  have c': "retry_counts ?s op_id = Some (c + 1)" by simp
  have n': "n = nat (max_retries (config ?s) - (c + 1))"
    using Suc.prems(4) by simp
  from Suc.IH [OF r' k' c' n'] step show ?case by simp
qed

text \<open>
  C10. Let the snapshot stored for the resolved operation id have been parsed from a
  header map without \<open>X-RateLimit-Reset\<close>. Its \<open>reset\<close> is the Unix epoch. When the
  clock is not before the epoch and the operation, with retries left, raises an
  exception derived from \<open>Exception\<close> whose message contains "rate limit exceeded" in
  some case, the \<open>except\<close> block counts the attempt, reads the clock once (the branch of
  \<open>_wait_for_reset\<close>) and does not sleep; no backoff delay is computed (no random number
  drawn, nothing added to \<open>sleeps\<close>). \<open>execute_with_retry\<close> goes on as if entered anew
  with that counter and that world.
\<close>

theorem epoch_reset_never_backs_off:
  assumes "parse_rate_limit_headers hdrs = Inr (Some ri)"
    and "hdrs ''X-RateLimit-Reset'' = None"
    and "rate_limits self (resolve_id operation operation_id) = Some ri"
    and "retry_counts self (resolve_id operation operation_id) = Some c"
    and "c < max_retries (config self)"
    and "call operation (op_world e) = (Inl x, w')"
    and "is_Exception (cls x)" "is_rate_limit x"
    and "0 \<le> clock e (clock_reads e)"
  shows "reset ri = 0
         \<and> execute_except self (resolve_id operation operation_id) x
               (e\<lparr>op_world := w', invocations := Suc (invocations e)\<rparr>)
             = (None,
                self\<lparr>retry_counts :=
                       (retry_counts self)(resolve_id operation operation_id \<mapsto> c + 1)\<rparr>,
                e\<lparr>op_world := w', invocations := Suc (invocations e),
                  clock_reads := Suc (clock_reads e)\<rparr>)
         \<and> execute_with_retry self operation operation_id e
             = execute_with_retry
                 (self\<lparr>retry_counts :=
                        (retry_counts self)(resolve_id operation operation_id \<mapsto> c + 1)\<rparr>)
                 operation operation_id
                 (e\<lparr>op_world := w', invocations := Suc (invocations e),
                    clock_reads := Suc (clock_reads e)\<rparr>)"
proof -
  let ?i = "resolve_id operation operation_id"
  let ?e1 = "e\<lparr>op_world := w', invocations := Suc (invocations e)\<rparr>"
  have r: "reset ri = 0"
    by (rule parse_without_reset [OF assms(1) assms(2)])
  with assms(9) have past: "reset ri \<le> clock e (clock_reads e)"
    by simp
  then have "reset ri \<le> clock ?e1 (clock_reads ?e1)"
    by simp
  from execute_except_past_reset [OF assms(3) assms(4) assms(8) this]
  have x: "execute_except self ?i x ?e1
             = (None, self\<lparr>retry_counts := (retry_counts self)(?i \<mapsto> c + 1)\<rparr>,
                e\<lparr>op_world := w', invocations := Suc (invocations e),
                  clock_reads := Suc (clock_reads e)\<rparr>)"
    by simp
  have l: "execute_with_retry self operation operation_id e
             = execute_with_retry
                 (self\<lparr>retry_counts := (retry_counts self)(?i \<mapsto> c + 1)\<rparr>)
                 operation operation_id
                 (e\<lparr>op_world := w', invocations := Suc (invocations e),
                    clock_reads := Suc (clock_reads e)\<rparr>)"
    using retry_loop_past_reset [OF assms(3) assms(4) assms(5) assms(6) assms(7) assms(8) past]
      assms(4)
    by (simp add: execute_with_retry_def Let_def)
  from r x l show ?thesis by blast
qed

theorem epoch_reset_never_backs_off_witness:
  "reset \<lparr>limit = 0, remaining = 0, reset = 0, used = 0\<rparr> = 0
   \<and> execute_except manager_epoch ''test_op'' (PyError Exception ''rate limit exceeded'')
         (env0\<lparr>op_world := 1, invocations := 1\<rparr>)
       = (None, manager_epoch\<lparr>retry_counts := [''test_op'' \<mapsto> 1]\<rparr>,
          env0\<lparr>op_world := 1, invocations := 1, clock_reads := 1\<rparr>)
   \<and> execute_with_retry manager_epoch limited (Some ''test_op'') env0
       = execute_with_retry (manager_epoch\<lparr>retry_counts := [''test_op'' \<mapsto> 1]\<rparr>) limited
           (Some ''test_op'') (env0\<lparr>op_world := 1, invocations := 1, clock_reads := 1\<rparr>)"
proof -
  have id: "resolve_id limited (Some ''test_op'') = ''test_op''"
    by (simp add: resolve_id_def)
  have h: "(Map.empty :: string \<rightharpoonup> string) ''X-RateLimit-Reset'' = None"
    by simp
  have r: "rate_limits manager_epoch (resolve_id limited (Some ''test_op''))
             = Some \<lparr>limit = 0, remaining = 0, reset = 0, used = 0\<rparr>"
    by (simp add: id manager_epoch_def)
  have c: "retry_counts manager_epoch (resolve_id limited (Some ''test_op'')) = Some 0"
    by (simp add: id manager_epoch_def)
  have m: "0 < max_retries (config manager_epoch)"
    by (simp add: manager_epoch_def manager0_max_retries)
  have call: "call limited (op_world env0) = (Inl (PyError Exception ''rate limit exceeded''), 1)"
    by (simp add: limited_def limited_call_def env0_def)
  have ex: "is_Exception (cls (PyError Exception ''rate limit exceeded''))"
    by simp
  have k: "0 \<le> clock env0 (clock_reads env0)"
    by (simp add: env0_def sample_clock_def)
  have u: "(retry_counts manager_epoch)(''test_op'' \<mapsto> 1) = [''test_op'' \<mapsto> 1]"
    by (simp add: manager_epoch_def)
  show ?thesis
    using epoch_reset_never_backs_off
            [OF parse_no_headers h r c m call ex limited_is_rate_limit k]
    by (simp add: id u env0_def)
qed

end
